theory Spec2Isabelle
  imports Main "HOL-Library.Word"
begin

section \<open>Values exchanged with the web framework\<close>

text \<open>
  The application is a Flask module of five request handlers over two clients that are
  built once at start-up: an S3 client and the PostgreSQL driver. The handlers are
  embedded as functions from the state of the outside world to a response and the new
  state; every exception of the Python is a value.
\<close>

type_synonym bytes = "8 word list"

text \<open>\<open>os.environ\<close>: the process environment, read with \<open>os.getenv\<close>.\<close>

type_synonym environ = "string \<Rightarrow> string option"

definition getenv :: "environ \<Rightarrow> string \<Rightarrow> string option" where
  "getenv env k = env k"

definition getenv_default :: "environ \<Rightarrow> string \<Rightarrow> string \<Rightarrow> string" where
  "getenv_default env k d = (case env k of None \<Rightarrow> d | Some v \<Rightarrow> v)"

text \<open>A JSON document, as \<open>jsonify\<close> serialises a Python value.\<close>

datatype json = JStr string | JInt int | JArr "json list" | JObj "(string \<times> json) list"

text \<open>
  What a handler returns: the body and the HTTP status. A handler that returns a bare
  string or a response object answers with status 200.
\<close>

datatype body = Text string | Html string | Json json | Attachment string bytes

type_synonym response = "body \<times> nat"

definition jsonify :: "(string \<times> json) list \<Rightarrow> body" where
  "jsonify d = Json (JObj d)"

text \<open>
  \<open>send_file(file, download_name=name, as_attachment=True)\<close>: the bytes of the
  stream, with a content disposition that names the download.
\<close>

definition send_file :: "bytes \<Rightarrow> string \<Rightarrow> body" where
  "send_file content download_name = Attachment download_name content"

text \<open>
  An uploaded part of a multipart form (werkzeug's \<open>FileStorage\<close>) and the request:
  \<open>request.files\<close> is a multi-dictionary, kept as the list of its (field, part) pairs
  in the order of the form; indexing it gives the first part of that field.
\<close>

record file_storage =
  filename :: string
  stream :: bytes

record request =
  files :: "(string \<times> file_storage) list"

section \<open>Exceptions and the outside world\<close>

text \<open>
  Modelled from the spec: the exceptions are those of the two client libraries, which
  are third party. Section 4.1 names the store's not-found error apart from its other
  errors; \<open>BackendError\<close> is any other failure of a service or of the network, with
  its text. \<open>str\<close> is Python's \<open>str(e)\<close>, the text the handlers send back; the
  texts of the named exceptions stand for the libraries' own.
\<close>

datatype exn =
    NotFound
  | InvalidBucket
  | ConnectionClosed
  | CursorClosed
  | UndefinedTable
  | SyntaxError string
  | NoResults
  | BackendError string

fun str :: "exn \<Rightarrow> string" where
  "str NotFound = ''An error occurred (404) when calling the HeadObject operation: Not Found''"
| "str InvalidBucket = ''Parameter validation failed: Invalid type for parameter Bucket''"
| "str ConnectionClosed = ''connection already closed''"
| "str CursorClosed = ''cursor already closed''"
| "str UndefinedTable = ''relation test does not exist''"
| "str (SyntaxError q) = ''syntax error in '' @ q"
| "str NoResults = ''no results to fetch''"
| "str (BackendError m) = m"

type_synonym row = "int \<times> string"

text \<open>The parameters of \<open>psycopg2.connect\<close>.\<close>

record conn_params =
  host :: "string option"
  user :: "string option"
  password :: "string option"
  dbname :: string
  port :: string

text \<open>The SQL statements the application sends.\<close>

datatype statement = CreateTable | InsertRow | SelectAll

text \<open>Every call a handler makes to a client library, in the order it is made.\<close>

datatype call =
    S3Upload "string option" string bytes
  | S3Download "string option" string
  | PgConnect conn_params
  | PgCursor nat
  | PgExecute nat string
  | PgCommit nat
  | PgFetchall nat
  | PgCursorClose nat
  | PgClose nat

text \<open>
  A database session: the table \<open>test\<close> as the open transaction sees it (None when
  it does not exist), whether the session's cursor is open, and the result set the
  cursor holds.
\<close>

record session =
  view :: "row list option"
  cursor_open :: bool
  result :: "row list option"

text \<open>
  The world outside the process: the objects of the store by bucket and key, the
  committed table \<open>test\<close> and the last value of its serial column, the open database
  sessions by connection handle, and the number of connections opened so far (the next
  handle). \<open>faults\<close> is what the network and the services will do to the next calls,
  one entry a call: \<open>Some e\<close> makes the call raise \<open>e\<close> with no effect, \<open>None\<close> lets it
  run; past the end of the list every call runs. \<open>calls\<close> is the log of the calls made.
\<close>

record world =
  objects :: "string \<times> string \<Rightarrow> bytes option"
  test_table :: "row list option"
  test_seq :: int
  sessions :: "nat \<Rightarrow> session option"
  connects :: nat
  faults :: "exn option list"
  calls :: "call list"

text \<open>A computation that may raise: the exception or the value, and the world after it.\<close>

type_synonym 'a io = "world \<Rightarrow> (exn + 'a) \<times> world"

definition return :: "'a \<Rightarrow> 'a io" where
  "return x w = (Inr x, w)"

definition raise :: "exn \<Rightarrow> 'a io" where
  "raise e w = (Inl e, w)"

definition bind :: "'a io \<Rightarrow> ('a \<Rightarrow> 'b io) \<Rightarrow> 'b io" where
  "bind m f w = (case m w of (Inl e, w') \<Rightarrow> (Inl e, w') | (Inr x, w') \<Rightarrow> f x w')"

text \<open>
  \<open>try: ... except Exception as e: return h(e)\<close> around a handler's body: the body's
  response, or the response made from the exception.
\<close>

definition try_except :: "response io \<Rightarrow> (exn \<Rightarrow> response) \<Rightarrow> world \<Rightarrow> response \<times> world" where
  "try_except m h w = (case m w of (Inl e, w') \<Rightarrow> (h e, w') | (Inr r, w') \<Rightarrow> (r, w'))"

text \<open>
  One call to a client library: it is logged, takes its entry of \<open>faults\<close>, and either
  raises that exception or runs.
\<close>

definition backend_call :: "call \<Rightarrow> 'a io \<Rightarrow> 'a io" where
  "backend_call c op w =
     (let w1 = w\<lparr>faults := drop 1 (faults w), calls := calls w @ [c]\<rparr> in
      case faults w of
        Some e # _ \<Rightarrow> (Inl e, w1)
      | _ \<Rightarrow> op w1)"

text \<open>\<open>no_fault n fs\<close>: none of the next \<open>n\<close> calls is made to raise.\<close>

fun no_fault :: "nat \<Rightarrow> exn option list \<Rightarrow> bool" where
  "no_fault 0 fs = True"
| "no_fault (Suc n) [] = True"
| "no_fault (Suc n) (None # fs) = no_fault n fs"
| "no_fault (Suc n) (Some e # fs) = False"

section \<open>The object store client\<close>

text \<open>
  Modelled from the spec: the S3 client (boto3) is a third-party library. Section 4.1:
  put streams the body to the bucket under the key and overwrites silently if the key
  exists; get fetches the whole object and fails with a not-found error of its own for
  a missing key. A bucket name that is not a string (the variable unset) is refused by
  the client's parameter validation.
\<close>

definition upload_fileobj :: "bytes \<Rightarrow> string option \<Rightarrow> string \<Rightarrow> unit io" where
  "upload_fileobj content b k =
     backend_call (S3Upload b k content)
       (case b of
          None \<Rightarrow> raise InvalidBucket
        | Some bn \<Rightarrow> (\<lambda>w. (Inr (), w\<lparr>objects := (objects w)((bn, k) \<mapsto> content)\<rparr>)))"

definition download_fileobj :: "string option \<Rightarrow> string \<Rightarrow> bytes io" where
  "download_fileobj b k =
     backend_call (S3Download b k)
       (case b of
          None \<Rightarrow> raise InvalidBucket
        | Some bn \<Rightarrow> (\<lambda>w. case objects w (bn, k) of
                             None \<Rightarrow> (Inl NotFound, w)
                           | Some content \<Rightarrow> (Inr content, w)))"

section \<open>The database driver\<close>

text \<open>
  Modelled from the spec: the PostgreSQL driver (psycopg2) and the server are third
  party. Section 4.4: a connection is opened per request; the table is created if
  absent with a serial id and a data column; a row is inserted, the transaction is
  committed, all rows are selected. A statement works on the transaction's view of the
  table, and commit publishes the view.
\<close>

definition connect :: "conn_params \<Rightarrow> nat io" where
  "connect p =
     backend_call (PgConnect p)
       (\<lambda>w. (Inr (connects w),
              w\<lparr>sessions := (sessions w)(connects w \<mapsto>
                     \<lparr>view = test_table w, cursor_open = False, result = None\<rparr>),
                connects := Suc (connects w)\<rparr>))"

definition cursor :: "nat \<Rightarrow> nat io" where
  "cursor conn =
     backend_call (PgCursor conn)
       (\<lambda>w. case sessions w conn of
               None \<Rightarrow> (Inl ConnectionClosed, w)
             | Some s \<Rightarrow>
                 (Inr conn, w\<lparr>sessions := (sessions w)(conn \<mapsto> s\<lparr>cursor_open := True, result := None\<rparr>)\<rparr>))"

definition parse_sql :: "string \<Rightarrow> statement option" where
  "parse_sql q =
     (if q = ''CREATE TABLE IF NOT EXISTS test (id serial PRIMARY KEY, data varchar(100));''
        then Some CreateTable
      else if q = ''INSERT INTO test (data) VALUES ('GeoIQ');'' then Some InsertRow
      else if q = ''SELECT * FROM test;'' then Some SelectAll
      else None)"

text \<open>
  One statement on a session: the new session and the new value of the serial counter,
  or the exception.
\<close>

fun run_statement :: "statement \<Rightarrow> session \<Rightarrow> int \<Rightarrow> exn + session \<times> int" where
  "run_statement CreateTable s n =
     (case view s of
        None \<Rightarrow> Inr (s\<lparr>view := Some [], result := None\<rparr>, 0)
      | Some rows \<Rightarrow> Inr (s\<lparr>result := None\<rparr>, n))"
| "run_statement InsertRow s n =
     (case view s of
        None \<Rightarrow> Inl UndefinedTable
      | Some rows \<Rightarrow> Inr (s\<lparr>view := Some (rows @ [(n + 1, ''GeoIQ'')]), result := None\<rparr>, n + 1))"
| "run_statement SelectAll s n =
     (case view s of
        None \<Rightarrow> Inl UndefinedTable
      | Some rows \<Rightarrow> Inr (s\<lparr>result := Some rows\<rparr>, n))"

definition execute :: "nat \<Rightarrow> string \<Rightarrow> unit io" where
  "execute cur q =
     backend_call (PgExecute cur q)
       (\<lambda>w. case sessions w cur of
               None \<Rightarrow> (Inl ConnectionClosed, w)
             | Some s \<Rightarrow>
                 if \<not> cursor_open s then (Inl CursorClosed, w)
                 else (case parse_sql q of
                         None \<Rightarrow> (Inl (SyntaxError q), w)
                       | Some st \<Rightarrow>
                           (case run_statement st s (test_seq w) of
                              Inl e \<Rightarrow> (Inl e, w)
                            | Inr (s', n') \<Rightarrow>
                                (Inr (), w\<lparr>sessions := (sessions w)(cur \<mapsto> s'), test_seq := n'\<rparr>))))"

definition commit :: "nat \<Rightarrow> unit io" where
  "commit conn =
     backend_call (PgCommit conn)
       (\<lambda>w. case sessions w conn of
               None \<Rightarrow> (Inl ConnectionClosed, w)
             | Some s \<Rightarrow> (Inr (), w\<lparr>test_table := view s\<rparr>))"

definition fetchall :: "nat \<Rightarrow> row list io" where
  "fetchall cur =
     backend_call (PgFetchall cur)
       (\<lambda>w. case sessions w cur of
               None \<Rightarrow> (Inl ConnectionClosed, w)
             | Some s \<Rightarrow>
                 if \<not> cursor_open s then (Inl CursorClosed, w)
                 else (case result s of
                         None \<Rightarrow> (Inl NoResults, w)
                       | Some rows \<Rightarrow>
                           (Inr rows, w\<lparr>sessions := (sessions w)(cur \<mapsto> s\<lparr>result := Some []\<rparr>)\<rparr>)))"

definition cursor_close :: "nat \<Rightarrow> unit io" where
  "cursor_close cur =
     backend_call (PgCursorClose cur)
       (\<lambda>w. case sessions w cur of
               None \<Rightarrow> (Inr (), w)
             | Some s \<Rightarrow>
                 (Inr (), w\<lparr>sessions := (sessions w)(cur \<mapsto> s\<lparr>cursor_open := False, result := None\<rparr>)\<rparr>))"

definition conn_close :: "nat \<Rightarrow> unit io" where
  "conn_close conn =
     backend_call (PgClose conn) (\<lambda>w. (Inr (), w\<lparr>sessions := (sessions w)(conn := None)\<rparr>))"

section \<open>Start-up configuration\<close>

text \<open>
  \<open>bucket = os.getenv("S3_BUCKET")\<close> and
  \<open>region = os.getenv("AWS_DEFAULT_REGION", "us-east-1")\<close>, read once when the
  module is loaded. An f-string prints an unset bucket as \<open>None\<close>.
\<close>

definition bucket :: "environ \<Rightarrow> string option" where
  "bucket env = getenv env ''S3_BUCKET''"

definition region :: "environ \<Rightarrow> string" where
  "region env = getenv_default env ''AWS_DEFAULT_REGION'' ''us-east-1''"

definition format_opt :: "string option \<Rightarrow> string" where
  "format_opt v = (case v of None \<Rightarrow> ''None'' | Some s \<Rightarrow> s)"

section \<open>The pages\<close>

text \<open>The two HTML documents of the source, character for character.\<close>

definition upload_html :: "string" where
  \<open>upload_html = concat
    [''\<newline>'',
     ''    <!DOCTYPE html>\<newline>'',
     ''    <html lang="en">\<newline>'',
     ''    <head>\<newline>'',
     ''      <meta charset="UTF-8">\<newline>'',
     ''      <meta name="viewport" content="width=device-width, initial-scale=1.0">\<newline>'',
     ''      <title>Upload File | FileShare</title>\<newline>'',
     ''      <link rel="stylesheet" href="https://cdnjs.cloudflare.com/ajax/libs/font-awesome/6.4.0/css/all.min.css">\<newline>'',
     ''      <style>\<newline>'',
     ''        body { font-family: Arial, sans-serif; background: #f4f7fa; display: flex; justify-content: center; align-items: center; height: 100vh; margin: 0; }\<newline>'',
     ''        .container { text-align: center; background: #fff; padding: 40px; border-radius: 12px; box-shadow: 0 4px 15px rgba(0,0,0,0.1); width: 400px; }\<newline>'',
     ''        h2 { color: #333; margin-bottom: 20px; }\<newline>'',
     ''        input[type=file] { margin-bottom: 15px; }\<newline>'',
     ''        .btn { background: #007bff; color: #fff; border: none; padding: 10px 20px; border-radius: 6px; cursor: pointer; font-size: 14px; }\<newline>'',
     ''        .btn:hover { background: #0056b3; }\<newline>'',
     ''      </style>\<newline>'',
     ''    </head>\<newline>'',
     ''    <body>\<newline>'',
     ''      <div class="container">\<newline>'',
     ''        <h2><i class="fas fa-cloud-upload-alt"></i> Upload File</h2>\<newline>'',
     ''        <form action="/upload_success" method="post" enctype="multipart/form-data">\<newline>'',
     ''          <input type="file" name="file" required><br>\<newline>'',
     ''          <button class="btn" type="submit"><i class="fas fa-upload"></i> Upload</button>\<newline>'',
     ''        </form>\<newline>'',
     ''      </div>\<newline>'',
     ''    </body>\<newline>'',
     ''    </html>\<newline>'',
     ''    '']\<close>

definition success_html :: "string \<Rightarrow> string" where
  \<open>success_html url = concat
    [''\<newline>'',
     ''        <!DOCTYPE html>\<newline>'',
     ''        <html lang="en">\<newline>'',
     ''        <head>\<newline>'',
     ''          <meta charset="UTF-8">\<newline>'',
     ''          <meta name="viewport" content="width=device-width, initial-scale=1.0">\<newline>'',
     ''          <title>Upload Success | FileShare</title>\<newline>'',
     ''          <link rel="stylesheet" href="https://cdnjs.cloudflare.com/ajax/libs/font-awesome/6.4.0/css/all.min.css">\<newline>'',
     ''          <style>\<newline>'',
     ''            body { font-family: Arial, sans-serif; background: #f4f7fa; display: flex; justify-content: center; align-items: center; height: 100vh; margin: 0; }\<newline>'',
     ''            .container { text-align: center; background: #fff; padding: 40px; border-radius: 12px; box-shadow: 0 4px 15px rgba(0,0,0,0.1); width: 500px; }\<newline>'',
     ''            .success-icon { font-size: 60px; color: #28a745; margin-bottom: 20px; }\<newline>'',
     ''            h2 { color: #333; margin-bottom: 10px; }\<newline>'',
     ''            p { color: #666; margin-bottom: 20px; }\<newline>'',
     ''            .url-box { display: flex; justify-content: space-between; align-items: center; border: 1px solid #ddd; padding: 10px; border-radius: 8px; margin-bottom: 20px; }\<newline>'',
     ''            .url-text { flex: 1; word-break: break-all; text-align: left; }\<newline>'',
     ''            .copy-btn { background: #007bff; color: #fff; border: none; padding: 8px 15px; border-radius: 6px; cursor: pointer; }\<newline>'',
     ''            .copy-btn:hover { background: #0056b3; }\<newline>'',
     ''            .action-buttons { display: flex; justify-content: center; gap: 10px; }\<newline>'',
     ''            .btn { padding: 10px 20px; border-radius: 6px; text-decoration: none; font-size: 14px; }\<newline>'',
     ''            .btn-primary { background: #007bff; color: #fff; }\<newline>'',
     ''            .btn-secondary { background: #6c757d; color: #fff; }\<newline>'',
     ''            .btn-primary:hover { background: #0056b3; }\<newline>'',
     ''            .btn-secondary:hover { background: #565e64; }\<newline>'',
     ''          </style>\<newline>'',
     ''        </head>\<newline>'',
     ''        <body>\<newline>'',
     ''          <div class="container">\<newline>'',
     ''            <div class="success-icon"><i class="fas fa-check-circle"></i></div>\<newline>'',
     ''            <h2>File Uploaded Successfully!</h2>\<newline>'',
     ''            <p>Your file has been uploaded. Copy the URL below to share it:</p>\<newline>'',
     ''            <div class="url-box">\<newline>'',
     ''              <div class="url-text" id="url-text">'',
     url,
     ''</div>\<newline>'',
     ''              <button class="copy-btn" id="copy-btn"><i class="fas fa-copy"></i> Copy</button>\<newline>'',
     ''            </div>\<newline>'',
     ''            <div class="action-buttons">\<newline>'',
     ''              <a href="/upload" class="btn btn-secondary"><i class="fas fa-arrow-left"></i> Back to Upload</a>\<newline>'',
     ''              <a href="'',
     url,
     ''" target="_blank" class="btn btn-primary"><i class="fas fa-share-alt"></i> Open File</a>\<newline>'',
     ''            </div>\<newline>'',
     ''          </div>\<newline>'',
     ''          <script>\<newline>'',
     ''            const copyBtn = document.getElementById("copy-btn");\<newline>'',
     ''            const urlText = document.getElementById("url-text").innerText;\<newline>'',
     ''            copyBtn.addEventListener("click", () => {\<newline>'',
     ''              navigator.clipboard.writeText(urlText).then(() => {\<newline>'',
     ''                copyBtn.innerHTML = "<i class='fas fa-check'></i> Copied!";\<newline>'',
     ''                setTimeout(() => {\<newline>'',
     ''                  copyBtn.innerHTML = "<i class='fas fa-copy'></i> Copy";\<newline>'',
     ''                }, 2000);\<newline>'',
     ''              });\<newline>'',
     ''            });\<newline>'',
     ''          </script>\<newline>'',
     ''        </body>\<newline>'',
     ''        </html>\<newline>'',
     ''        '']\<close>

section \<open>The handlers\<close>

definition health_check :: "world \<Rightarrow> response \<times> world" where
  "health_check w = ((Text ''200 OK'', 200), w)"

definition upload_page :: "world \<Rightarrow> response \<times> world" where
  "upload_page w = ((Html upload_html, 200), w)"

text \<open>The URL of an object, as the upload handler's f-string builds it.\<close>

definition object_url :: "environ \<Rightarrow> string \<Rightarrow> string" where
  "object_url env k =
     ''https://'' @ format_opt (bucket env) @ ''.s3.'' @ region env @ ''.amazonaws.com/'' @ k"

text \<open>
  \<open>upload_file\<close>: the two checks of the form, each an early return with status 400;
  then the put under the part's own filename and the success page around the URL.
\<close>

definition upload_file_body :: "environ \<Rightarrow> request \<Rightarrow> response io" where
  "upload_file_body env request =
     (case map_of (files request) ''file'' of
        None \<Rightarrow> return (jsonify [(''error'', JStr ''No file part in the request'')], 400)
      | Some file \<Rightarrow>
          if filename file = ''''
          then return (jsonify [(''error'', JStr ''No selected file'')], 400)
          else bind (upload_fileobj (stream file) (bucket env) (filename file)) (\<lambda>_.
               return (Html (success_html (object_url env (filename file))), 200)))"

definition upload_file :: "environ \<Rightarrow> request \<Rightarrow> world \<Rightarrow> response \<times> world" where
  "upload_file env request =
     try_except (upload_file_body env request)
       (\<lambda>e. (jsonify [(''error'', JStr (str e))], 500))"

text \<open>\<open>download_file\<close>: the object fetched into a buffer and sent as an attachment.\<close>

definition download_file_body :: "environ \<Rightarrow> string \<Rightarrow> response io" where
  "download_file_body env name =
     bind (download_fileobj (bucket env) name) (\<lambda>file.
     return (send_file file name, 200))"

definition download_file :: "environ \<Rightarrow> string \<Rightarrow> world \<Rightarrow> response \<times> world" where
  "download_file env name =
     try_except (download_file_body env name)
       (\<lambda>e. (jsonify [(''error'', JStr (str e))], 500))"

text \<open>
  The connection parameters \<open>db_test\<close> reads from the environment. The default
  port is the number 5432 in the source and a string when the variable is set; the
  driver takes either, and the parameter is kept as text.
\<close>

definition db_params :: "environ \<Rightarrow> conn_params" where
  "db_params env =
     \<lparr>host = getenv env ''DB_HOST'',
      user = getenv env ''DB_USER'',
      password = getenv env ''DB_PASSWORD'',
      dbname = getenv_default env ''DB_NAME'' ''postgres'',
      port = getenv_default env ''DB_PORT'' ''5432''\<rparr>"

text \<open>\<open>jsonify\<close> of the fetched rows: a list of tuples becomes an array of arrays.\<close>

definition rows_json :: "row list \<Rightarrow> json" where
  "rows_json rows = JArr (map (\<lambda>(i, d). JArr [JInt i, JStr d]) rows)"

text \<open>
  The body of \<open>db_test\<close> inside its \<open>try\<close>: connect, cursor, three statements with
  a commit after the insert, the fetch, and the two closes.
\<close>

definition db_test_body :: "environ \<Rightarrow> response io" where
  "db_test_body env =
     bind (connect (db_params env)) (\<lambda>conn.
     bind (cursor conn) (\<lambda>cur.
     bind (execute cur ''CREATE TABLE IF NOT EXISTS test (id serial PRIMARY KEY, data varchar(100));'') (\<lambda>_.
     bind (execute cur ''INSERT INTO test (data) VALUES ('GeoIQ');'') (\<lambda>_.
     bind (commit conn) (\<lambda>_.
     bind (execute cur ''SELECT * FROM test;'') (\<lambda>_.
     bind (fetchall cur) (\<lambda>results.
     bind (cursor_close cur) (\<lambda>_.
     bind (conn_close conn) (\<lambda>_.
     return (jsonify [(''results'', rows_json results)], 200))))))))))"

definition db_test :: "environ \<Rightarrow> world \<Rightarrow> response \<times> world" where
  "db_test env =
     try_except (db_test_body env) (\<lambda>e. (jsonify [(''error'', JStr (str e))], 500))"

section \<open>Reading the log and the table\<close>

text \<open>
  The nine calls of one run of \<open>db_test\<close> on connection handle \<open>c\<close>, in the order of
  the source.
\<close>

definition db_test_calls :: "environ \<Rightarrow> nat \<Rightarrow> call list" where
  "db_test_calls env c =
     [PgConnect (db_params env),
      PgCursor c,
      PgExecute c ''CREATE TABLE IF NOT EXISTS test (id serial PRIMARY KEY, data varchar(100));'',
      PgExecute c ''INSERT INTO test (data) VALUES ('GeoIQ');'',
      PgCommit c,
      PgExecute c ''SELECT * FROM test;'',
      PgFetchall c,
      PgCursorClose c,
      PgClose c]"

text \<open>
  The rows of the committed table (none when the table does not exist) and the last id
  its serial column gave out (a table created now starts again from 0).
\<close>

definition table_rows :: "world \<Rightarrow> row list" where
  "table_rows w = (case test_table w of None \<Rightarrow> [] | Some rows \<Rightarrow> rows)"

definition last_id :: "world \<Rightarrow> int" where
  "last_id w = (case test_table w of None \<Rightarrow> 0 | Some rows \<Rightarrow> test_seq w)"

section \<open>Concrete inputs\<close>

definition example_env :: environ where
  "example_env = (\<lambda>k. if k = ''S3_BUCKET'' then Some ''geoiq-files'' else None)"

definition empty_world :: world where
  "empty_world =
     \<lparr>objects = (\<lambda>_. None), test_table = None, test_seq = 0, sessions = (\<lambda>_. None),
      connects = 0, faults = [], calls = []\<rparr>"

definition report_pdf :: file_storage where
  "report_pdf = \<lparr>filename = ''report.pdf'', stream = [37, 80, 68, 70]\<rparr>"

definition report_pdf_v2 :: file_storage where
  "report_pdf_v2 = \<lparr>filename = ''report.pdf'', stream = [1, 2]\<rparr>"

definition unnamed_part :: file_storage where
  "unnamed_part = \<lparr>filename = '''', stream = [1, 2, 3]\<rparr>"

text \<open>
  A database that holds one row and accepts the connection, the cursor and the
  \<open>CREATE TABLE\<close>, and then refuses the \<open>INSERT\<close>.
\<close>

definition denied_world :: world where
  "denied_world =
     empty_world\<lparr>test_table := Some [(1, ''GeoIQ'')], test_seq := 1,
       faults := [None, None, None, Some (BackendError ''permission denied for table test'')]\<rparr>"

text \<open>A store whose next call fails with a timeout.\<close>

definition timeout_world :: world where
  "timeout_world = empty_world\<lparr>faults := [Some (BackendError ''Read timeout on endpoint URL'')]\<rparr>"

section \<open>Basic facts about calls\<close>

lemmas io_defs = return_def raise_def bind_def try_except_def

lemma backend_call_fault:
  "faults w = Some e # fs \<Longrightarrow>
   backend_call c op w = (Inl e, w\<lparr>faults := fs, calls := calls w @ [c]\<rparr>)"
  by (simp add: backend_call_def)

lemma backend_call_run:
  "no_fault (Suc n) (faults w) \<Longrightarrow>
   backend_call c op w = op (w\<lparr>faults := drop 1 (faults w), calls := calls w @ [c]\<rparr>)"
proof (cases "faults w")
  case Nil
  then show ?thesis by (simp add: backend_call_def)
next
  case (Cons a fs)
  assume "no_fault (Suc n) (faults w)"
  with Cons show ?thesis by (cases a) (simp_all add: backend_call_def)
qed

lemma no_fault_Nil [simp]: "no_fault n []"
  by (cases n) simp_all

lemma no_fault_drop: "no_fault (Suc n) fs \<Longrightarrow> no_fault n (drop 1 fs)"
  by (induction "Suc n" fs rule: no_fault.induct) (cases n; simp)+

lemma no_fault_mono: "no_fault n fs \<Longrightarrow> m \<le> n \<Longrightarrow> no_fault m fs"
proof (induction n fs arbitrary: m rule: no_fault.induct)
  case (3 n fs)
  then show ?case by (cases m) simp_all
qed (case_tac m; simp)+

section \<open>The upload handler\<close>

lemma upload_file_missing:
  "map_of (files request) ''file'' = None \<Longrightarrow>
   upload_file env request w =
     ((jsonify [(''error'', JStr ''No file part in the request'')], 400), w)"
  by (simp add: upload_file_def upload_file_body_def io_defs)

lemma upload_file_unnamed:
  "map_of (files request) ''file'' = Some file \<Longrightarrow> filename file = '''' \<Longrightarrow>
   upload_file env request w = ((jsonify [(''error'', JStr ''No selected file'')], 400), w)"
  by (simp add: upload_file_def upload_file_body_def io_defs)

lemma upload_file_fault:
  "map_of (files request) ''file'' = Some file \<Longrightarrow> filename file \<noteq> '''' \<Longrightarrow>
   faults w = Some e # fs \<Longrightarrow>
   upload_file env request w =
     ((jsonify [(''error'', JStr (str e))], 500),
      w\<lparr>faults := fs, calls := calls w @ [S3Upload (bucket env) (filename file) (stream file)]\<rparr>)"
  by (simp add: upload_file_def upload_file_body_def upload_fileobj_def io_defs backend_call_fault)

lemma upload_file_no_bucket:
  "map_of (files request) ''file'' = Some file \<Longrightarrow> filename file \<noteq> '''' \<Longrightarrow>
   no_fault 1 (faults w) \<Longrightarrow> bucket env = None \<Longrightarrow>
   upload_file env request w =
     ((jsonify [(''error'', JStr (str InvalidBucket))], 500),
      w\<lparr>faults := drop 1 (faults w),
        calls := calls w @ [S3Upload None (filename file) (stream file)]\<rparr>)"
  by (simp add: upload_file_def upload_file_body_def upload_fileobj_def io_defs
      backend_call_run [of 0])

lemma upload_file_stored:
  "map_of (files request) ''file'' = Some file \<Longrightarrow> filename file \<noteq> '''' \<Longrightarrow>
   no_fault 1 (faults w) \<Longrightarrow> bucket env = Some b \<Longrightarrow>
   upload_file env request w =
     ((Html (success_html (object_url env (filename file))), 200),
      w\<lparr>faults := drop 1 (faults w),
        calls := calls w @ [S3Upload (Some b) (filename file) (stream file)],
        objects := (objects w)((b, filename file) \<mapsto> stream file)\<rparr>)"
  by (simp add: upload_file_def upload_file_body_def upload_fileobj_def io_defs
      backend_call_run [of 0])

lemma not_no_fault_1: "\<not> no_fault 1 fs \<Longrightarrow> \<exists>e rest. fs = Some e # rest"
  by (cases "(1::nat, fs)" rule: no_fault.cases) auto

text \<open>The four ways through the upload handler, by its status.\<close>

lemma upload_file_status:
  "snd (fst (upload_file env request w)) =
     (case map_of (files request) ''file'' of
        None \<Rightarrow> 400
      | Some file \<Rightarrow>
          if filename file = '''' then 400
          else if no_fault 1 (faults w) \<and> bucket env \<noteq> None then 200 else 500)"
proof (cases "map_of (files request) ''file''")
  case None
  then show ?thesis by (simp add: upload_file_missing)
next
  case (Some f)
  show ?thesis
  proof (cases "filename f = ''''")
    case True
    with Some show ?thesis by (simp add: upload_file_unnamed)
  next
    case named: False
    show ?thesis
    proof (cases "no_fault 1 (faults w)")
      case True
      with Some named show ?thesis
        by (cases "bucket env") (simp_all add: upload_file_no_bucket upload_file_stored)
    next
      case False
      then obtain e rest where "faults w = Some e # rest"
        using not_no_fault_1 by blast
      with Some named False show ?thesis by (simp add: upload_file_fault)
    qed
  qed
qed

section \<open>The download handler\<close>

lemma download_file_raises:
  "download_fileobj (bucket env) name w = (Inl e, w') \<Longrightarrow>
   download_file env name w = ((jsonify [(''error'', JStr (str e))], 500), w')"
  by (simp add: download_file_def download_file_body_def io_defs)

lemma download_file_fault:
  "faults w = Some e # fs \<Longrightarrow>
   download_file env name w =
     ((jsonify [(''error'', JStr (str e))], 500),
      w\<lparr>faults := fs, calls := calls w @ [S3Download (bucket env) name]\<rparr>)"
  by (simp add: download_file_def download_file_body_def download_fileobj_def io_defs
      backend_call_fault)

lemma download_fileobj_missing:
  "bucket env = Some b \<Longrightarrow> objects w (b, name) = None \<Longrightarrow> no_fault 1 (faults w) \<Longrightarrow>
   download_fileobj (bucket env) name w =
     (Inl NotFound, w\<lparr>faults := drop 1 (faults w), calls := calls w @ [S3Download (Some b) name]\<rparr>)"
  by (simp add: download_fileobj_def backend_call_run [of 0])

lemma download_file_no_bucket:
  "bucket env = None \<Longrightarrow> no_fault 1 (faults w) \<Longrightarrow>
   download_file env name w =
     ((jsonify [(''error'', JStr (str InvalidBucket))], 500),
      w\<lparr>faults := drop 1 (faults w), calls := calls w @ [S3Download None name]\<rparr>)"
  by (simp add: download_file_def download_file_body_def download_fileobj_def io_defs
      backend_call_run [of 0])

lemma download_file_found:
  "bucket env = Some b \<Longrightarrow> objects w (b, name) = Some content \<Longrightarrow> no_fault 1 (faults w) \<Longrightarrow>
   download_file env name w =
     ((send_file content name, 200),
      w\<lparr>faults := drop 1 (faults w), calls := calls w @ [S3Download (Some b) name]\<rparr>)"
  by (simp add: download_file_def download_file_body_def download_fileobj_def io_defs
      backend_call_run [of 0])

lemma download_file_status: "snd (fst (download_file env name w)) \<in> {200, 500}"
  by (cases "download_fileobj (bucket env) name w"; case_tac a)
     (simp_all add: download_file_def download_file_body_def io_defs)

section \<open>The database probe\<close>

lemma parse_sql_create:
  "parse_sql ''CREATE TABLE IF NOT EXISTS test (id serial PRIMARY KEY, data varchar(100));'' =
     Some CreateTable"
  by (simp add: parse_sql_def)

lemma parse_sql_insert: "parse_sql ''INSERT INTO test (data) VALUES ('GeoIQ');'' = Some InsertRow"
  by (simp add: parse_sql_def)

lemma parse_sql_select: "parse_sql ''SELECT * FROM test;'' = Some SelectAll"
  by (simp add: parse_sql_def)

lemmas parse_sql_simps = parse_sql_create parse_sql_insert parse_sql_select

lemmas pg_defs = connect_def cursor_def execute_def commit_def fetchall_def cursor_close_def
  conn_close_def

lemma no_fault_at: "no_fault n fs \<Longrightarrow> i < n \<Longrightarrow> no_fault (Suc 0) (drop i fs)"
proof (induction n fs arbitrary: i rule: no_fault.induct)
  case (3 n fs)
  then show ?case by (cases i) simp_all
qed simp_all

text \<open>A run in which none of the nine calls is made to raise.\<close>

lemma db_test_ok:
  assumes "no_fault 9 (faults w)"
  shows "db_test env w =
    ((jsonify [(''results'', rows_json (table_rows w @ [(last_id w + 1, ''GeoIQ'')]))], 200),
     w\<lparr>faults := drop 9 (faults w),
       calls := calls w @ db_test_calls env (connects w),
       sessions := (sessions w)(connects w := None),
       test_table := Some (table_rows w @ [(last_id w + 1, ''GeoIQ'')]),
       test_seq := last_id w + 1,
       connects := Suc (connects w)\<rparr>)"
proof -
  have q: "\<And>i. i < 9 \<Longrightarrow> no_fault (Suc 0) (drop i (faults w))"
    using assms by (rule no_fault_at)
  have q0: "no_fault (Suc 0) (faults w)"
    using q [of 0] by simp
  have nine: "drop (Suc (Suc (Suc (Suc (Suc (Suc (Suc (Suc (Suc 0))))))))) (faults w) =
      drop 9 (faults w)"
    by (simp add: eval_nat_numeral)
  show ?thesis
    by (cases "test_table w")
       (simp_all add: db_test_def db_test_body_def pg_defs io_defs backend_call_run [of 0] q q0
          parse_sql_simps table_rows_def last_id_def db_test_calls_def nine)
qed

text \<open>A run in which the call number \<open>k\<close> (counted from 0) is the first made to raise.\<close>

lemma db_test_fault:
  assumes "k < 9" and "faults w = replicate k None @ Some e # fs"
  shows "fst (db_test env w) = (jsonify [(''error'', JStr (str e))], 500) \<and>
         calls (snd (db_test env w)) = calls w @ take (Suc k) (db_test_calls env (connects w)) \<and>
         faults (snd (db_test env w)) = fs \<and>
         (0 < k \<longrightarrow> sessions (snd (db_test env w)) (connects w) \<noteq> None) \<and>
         (k \<le> 4 \<longrightarrow> test_table (snd (db_test env w)) = test_table w)"
proof -
  from assms(1) consider "k = 0" | "k = 1" | "k = 2" | "k = 3" | "k = 4" | "k = 5" | "k = 6"
    | "k = 7" | "k = 8"
    by linarith
  then show ?thesis
  proof cases
    case 1
    with assms(2) show ?thesis
      by (simp add: db_test_def db_test_body_def pg_defs io_defs backend_call_def
          db_test_calls_def)
  next
    case 2
    with assms(2) show ?thesis
      by (simp add: db_test_def db_test_body_def pg_defs io_defs backend_call_def
          db_test_calls_def eval_nat_numeral)
  next
    case 3
    with assms(2) show ?thesis
      by (simp add: db_test_def db_test_body_def pg_defs io_defs backend_call_def
          db_test_calls_def eval_nat_numeral)
  next
    case 4
    with assms(2) show ?thesis
      by (cases "test_table w")
         (simp_all add: db_test_def db_test_body_def pg_defs io_defs backend_call_def
          db_test_calls_def eval_nat_numeral parse_sql_simps)
  next
    case 5
    with assms(2) show ?thesis
      by (cases "test_table w")
         (simp_all add: db_test_def db_test_body_def pg_defs io_defs backend_call_def
          db_test_calls_def eval_nat_numeral parse_sql_simps)
  next
    case 6
    with assms(2) show ?thesis
      by (cases "test_table w")
         (simp_all add: db_test_def db_test_body_def pg_defs io_defs backend_call_def
          db_test_calls_def eval_nat_numeral parse_sql_simps)
  next
    case 7
    with assms(2) show ?thesis
      by (cases "test_table w")
         (simp_all add: db_test_def db_test_body_def pg_defs io_defs backend_call_def
          db_test_calls_def eval_nat_numeral parse_sql_simps)
  next
    case 8
    with assms(2) show ?thesis
      by (cases "test_table w")
         (simp_all add: db_test_def db_test_body_def pg_defs io_defs backend_call_def
          db_test_calls_def eval_nat_numeral parse_sql_simps)
  next
    case 9
    with assms(2) show ?thesis
      by (cases "test_table w")
         (simp_all add: db_test_def db_test_body_def pg_defs io_defs backend_call_def
          db_test_calls_def eval_nat_numeral parse_sql_simps)
  qed
qed

lemma not_no_fault:
  "\<not> no_fault n fs \<Longrightarrow> \<exists>k e rest. k < n \<and> fs = replicate k None @ Some e # rest"
proof (induction n fs rule: no_fault.induct)
  case (3 n fs)
  then obtain k e rest where "k < n" "fs = replicate k None @ Some e # rest"
    by auto
  then have "Suc k < Suc n \<and> None # fs = replicate (Suc k) None @ Some e # rest"
    by simp
  then show ?case by blast
next
  case (4 n e fs)
  have "0 < Suc n \<and> Some e # fs = replicate 0 None @ Some e # fs"
    by simp
  then show ?case by blast
qed simp_all

lemma db_test_status:
  "snd (fst (db_test env w)) = (if no_fault 9 (faults w) then 200 else 500)"
proof (cases "no_fault 9 (faults w)")
  case True
  then show ?thesis by (simp add: db_test_ok)
next
  case False
  then obtain k e rest where "k < 9" "faults w = replicate k None @ Some e # rest"
    using not_no_fault by blast
  with False show ?thesis using db_test_fault [of k w e rest env] by simp
qed

text \<open>
  The success page carries the URL twice: as the text of the element \<open>url-text\<close>
  and as the target of the link that opens the file.
\<close>

lemma success_html_embeds:
  \<open>\<exists>pre mid post.
     success_html url =
       pre @ ''<div class="url-text" id="url-text">'' @ url @ ''</div>'' @ mid @
       ''<a href="'' @ url @ ''" target="_blank" class="btn btn-primary">'' @ post\<close>
proof -
  define pre :: string where
    \<open>pre = concat
      [''\<newline>'',
       ''        <!DOCTYPE html>\<newline>'',
       ''        <html lang="en">\<newline>'',
       ''        <head>\<newline>'',
       ''          <meta charset="UTF-8">\<newline>'',
       ''          <meta name="viewport" content="width=device-width, initial-scale=1.0">\<newline>'',
       ''          <title>Upload Success | FileShare</title>\<newline>'',
       ''          <link rel="stylesheet" href="https://cdnjs.cloudflare.com/ajax/libs/font-awesome/6.4.0/css/all.min.css">\<newline>'',
       ''          <style>\<newline>'',
       ''            body { font-family: Arial, sans-serif; background: #f4f7fa; display: flex; justify-content: center; align-items: center; height: 100vh; margin: 0; }\<newline>'',
       ''            .container { text-align: center; background: #fff; padding: 40px; border-radius: 12px; box-shadow: 0 4px 15px rgba(0,0,0,0.1); width: 500px; }\<newline>'',
       ''            .success-icon { font-size: 60px; color: #28a745; margin-bottom: 20px; }\<newline>'',
       ''            h2 { color: #333; margin-bottom: 10px; }\<newline>'',
       ''            p { color: #666; margin-bottom: 20px; }\<newline>'',
       ''            .url-box { display: flex; justify-content: space-between; align-items: center; border: 1px solid #ddd; padding: 10px; border-radius: 8px; margin-bottom: 20px; }\<newline>'',
       ''            .url-text { flex: 1; word-break: break-all; text-align: left; }\<newline>'',
       ''            .copy-btn { background: #007bff; color: #fff; border: none; padding: 8px 15px; border-radius: 6px; cursor: pointer; }\<newline>'',
       ''            .copy-btn:hover { background: #0056b3; }\<newline>'',
       ''            .action-buttons { display: flex; justify-content: center; gap: 10px; }\<newline>'',
       ''            .btn { padding: 10px 20px; border-radius: 6px; text-decoration: none; font-size: 14px; }\<newline>'',
       ''            .btn-primary { background: #007bff; color: #fff; }\<newline>'',
       ''            .btn-secondary { background: #6c757d; color: #fff; }\<newline>'',
       ''            .btn-primary:hover { background: #0056b3; }\<newline>'',
       ''            .btn-secondary:hover { background: #565e64; }\<newline>'',
       ''          </style>\<newline>'',
       ''        </head>\<newline>'',
       ''        <body>\<newline>'',
       ''          <div class="container">\<newline>'',
       ''            <div class="success-icon"><i class="fas fa-check-circle"></i></div>\<newline>'',
       ''            <h2>File Uploaded Successfully!</h2>\<newline>'',
       ''            <p>Your file has been uploaded. Copy the URL below to share it:</p>\<newline>'',
       ''            <div class="url-box">\<newline>'',
       ''              '']\<close>
  define mid :: string where
    \<open>mid = concat
      [''\<newline>'',
       ''              <button class="copy-btn" id="copy-btn"><i class="fas fa-copy"></i> Copy</button>\<newline>'',
       ''            </div>\<newline>'',
       ''            <div class="action-buttons">\<newline>'',
       ''              <a href="/upload" class="btn btn-secondary"><i class="fas fa-arrow-left"></i> Back to Upload</a>\<newline>'',
       ''              '']\<close>
  define post :: string where
    \<open>post = concat
      [''<i class="fas fa-share-alt"></i> Open File</a>\<newline>'',
       ''            </div>\<newline>'',
       ''          </div>\<newline>'',
       ''          <script>\<newline>'',
       ''            const copyBtn = document.getElementById("copy-btn");\<newline>'',
       ''            const urlText = document.getElementById("url-text").innerText;\<newline>'',
       ''            copyBtn.addEventListener("click", () => {\<newline>'',
       ''              navigator.clipboard.writeText(urlText).then(() => {\<newline>'',
       ''                copyBtn.innerHTML = "<i class='fas fa-check'></i> Copied!";\<newline>'',
       ''                setTimeout(() => {\<newline>'',
       ''                  copyBtn.innerHTML = "<i class='fas fa-copy'></i> Copy";\<newline>'',
       ''                }, 2000);\<newline>'',
       ''              });\<newline>'',
       ''            });\<newline>'',
       ''          </script>\<newline>'',
       ''        </body>\<newline>'',
       ''        </html>\<newline>'',
       ''        '']\<close>
  have \<open>success_html url =
       pre @ ''<div class="url-text" id="url-text">'' @ url @ ''</div>'' @ mid @
       ''<a href="'' @ url @ ''" target="_blank" class="btn btn-primary">'' @ post\<close>
    by (simp add: success_html_def pre_def mid_def post_def)
  then show ?thesis by blast
qed

section \<open>The claims about uploads and downloads\<close>

text \<open>
  C1. For every filename and every content: when the upload of a part \<open>file\<close> with
  that filename and content is answered with the success page and the download of the
  same name is answered with a file, the file is an attachment under that name with
  exactly the uploaded bytes. The download after a successful upload is answered with
  the file whenever its fetch is not made to raise, and the upload succeeds whenever
  the filename is not empty, the bucket is configured and its put is not made to raise.
\<close>

theorem upload_download_roundtrip:
  assumes "map_of (files request) ''file'' = Some f"
  shows "(snd (fst (upload_file env request w)) = 200 \<and>
          snd (fst (download_file env (filename f) (snd (upload_file env request w)))) = 200 \<longrightarrow>
            fst (download_file env (filename f) (snd (upload_file env request w))) =
              (Attachment (filename f) (stream f), 200)) \<and>
         (snd (fst (upload_file env request w)) = 200 \<and>
          no_fault 1 (faults (snd (upload_file env request w))) \<longrightarrow>
            fst (download_file env (filename f) (snd (upload_file env request w))) =
              (Attachment (filename f) (stream f), 200)) \<and>
         (filename f \<noteq> '''' \<and> bucket env \<noteq> None \<and> no_fault 1 (faults w) \<longrightarrow>
            snd (fst (upload_file env request w)) = 200)"
proof -
  define w1 where "w1 = snd (upload_file env request w)"
  have up_ok: "filename f \<noteq> '''' \<and> bucket env \<noteq> None \<and> no_fault 1 (faults w) \<longrightarrow>
      snd (fst (upload_file env request w)) = 200"
    using assms by (simp add: upload_file_status)
  have stored: "\<exists>b. bucket env = Some b \<and> objects w1 (b, filename f) = Some (stream f)"
    if "snd (fst (upload_file env request w)) = 200"
  proof -
    from that assms have named: "filename f \<noteq> ''''" and quiet: "no_fault 1 (faults w)"
      and set: "bucket env \<noteq> None"
      by (auto simp: upload_file_status split: if_splits)
    from set obtain b where b: "bucket env = Some b" by auto
    have "objects w1 (b, filename f) = Some (stream f)"
      unfolding w1_def using assms named quiet b by (simp add: upload_file_stored)
    with b show ?thesis by blast
  qed
  have fetched: "fst (download_file env (filename f) w1) =
      (Attachment (filename f) (stream f), 200)"
    if "snd (fst (upload_file env request w)) = 200" and "no_fault 1 (faults w1)"
  proof -
    from stored [OF that(1)] obtain b where "bucket env = Some b"
      and "objects w1 (b, filename f) = Some (stream f)"
      by blast
    with that(2) show ?thesis
      by (simp add: download_file_found [where b = b and content = "stream f"] send_file_def)
  qed
  have both: "fst (download_file env (filename f) w1) =
      (Attachment (filename f) (stream f), 200)"
    if "snd (fst (upload_file env request w)) = 200"
      and "snd (fst (download_file env (filename f) w1)) = 200"
  proof (cases "no_fault 1 (faults w1)")
    case True
    with that(1) show ?thesis by (rule fetched)
  next
    case False
    then obtain e rest where "faults w1 = Some e # rest"
      using not_no_fault_1 by blast
    then have "snd (fst (download_file env (filename f) w1)) = 500"
      by (simp add: download_file_fault)
    with that(2) show ?thesis by simp
  qed
  show ?thesis
  proof (intro conjI impI)
    assume "snd (fst (upload_file env request w)) = 200 \<and>
        snd (fst (download_file env (filename f) (snd (upload_file env request w)))) = 200"
    then have "snd (fst (upload_file env request w)) = 200"
      and "snd (fst (download_file env (filename f) w1)) = 200"
      by (simp_all add: w1_def)
    then have "fst (download_file env (filename f) w1) =
        (Attachment (filename f) (stream f), 200)"
      by (rule both)
    then show "fst (download_file env (filename f) (snd (upload_file env request w))) =
        (Attachment (filename f) (stream f), 200)"
      by (simp only: w1_def)
  next
    assume "snd (fst (upload_file env request w)) = 200 \<and>
        no_fault 1 (faults (snd (upload_file env request w)))"
    then have "snd (fst (upload_file env request w)) = 200" and "no_fault 1 (faults w1)"
      by (simp_all add: w1_def)
    then have "fst (download_file env (filename f) w1) =
        (Attachment (filename f) (stream f), 200)"
      by (rule fetched)
    then show "fst (download_file env (filename f) (snd (upload_file env request w))) =
        (Attachment (filename f) (stream f), 200)"
      by (simp only: w1_def)
  next
    assume "filename f \<noteq> '''' \<and> bucket env \<noteq> None \<and> no_fault 1 (faults w)"
    with up_ok show "snd (fst (upload_file env request w)) = 200"
      by (rule mp)
  qed
qed

theorem upload_download_roundtrip_witness:
  "snd (fst (upload_file example_env \<lparr>files = [(''file'', report_pdf)]\<rparr> empty_world)) = 200 \<and>
   snd (fst (download_file example_env ''report.pdf''
         (snd (upload_file example_env \<lparr>files = [(''file'', report_pdf)]\<rparr> empty_world)))) = 200 \<and>
   fst (download_file example_env ''report.pdf''
         (snd (upload_file example_env \<lparr>files = [(''file'', report_pdf)]\<rparr> empty_world))) =
     (Attachment ''report.pdf'' [37, 80, 68, 70], 200)"
proof -
  have part: "map_of (files \<lparr>files = [(''file'', report_pdf)]\<rparr>) ''file'' = Some report_pdf"
    by simp
  have start: "filename report_pdf \<noteq> '''' \<and> bucket example_env \<noteq> None \<and>
      no_fault 1 (faults empty_world)"
    by (simp add: report_pdf_def example_env_def empty_world_def bucket_def getenv_def)
  have "faults (snd (upload_file example_env \<lparr>files = [(''file'', report_pdf)]\<rparr> empty_world)) = []"
    using upload_file_stored [of "\<lparr>files = [(''file'', report_pdf)]\<rparr>" report_pdf
        empty_world example_env "''geoiq-files''"]
    by (simp add: report_pdf_def example_env_def empty_world_def bucket_def getenv_def)
  then have quiet: "no_fault 1
      (faults (snd (upload_file example_env \<lparr>files = [(''file'', report_pdf)]\<rparr> empty_world)))"
    by simp
  note trip = upload_download_roundtrip [OF part, of example_env empty_world]
  from trip have "filename report_pdf \<noteq> '''' \<and> bucket example_env \<noteq> None \<and>
      no_fault 1 (faults empty_world) \<longrightarrow>
      snd (fst (upload_file example_env \<lparr>files = [(''file'', report_pdf)]\<rparr> empty_world)) = 200"
    by (elim conjE)
  from this start
  have up: "snd (fst (upload_file example_env \<lparr>files = [(''file'', report_pdf)]\<rparr> empty_world)) = 200"
    by (rule mp)
  from trip have "snd (fst (upload_file example_env \<lparr>files = [(''file'', report_pdf)]\<rparr> empty_world)) = 200 \<and>
      no_fault 1 (faults (snd (upload_file example_env \<lparr>files = [(''file'', report_pdf)]\<rparr> empty_world))) \<longrightarrow>
      fst (download_file example_env (filename report_pdf)
            (snd (upload_file example_env \<lparr>files = [(''file'', report_pdf)]\<rparr> empty_world))) =
        (Attachment (filename report_pdf) (stream report_pdf), 200)"
    by (elim conjE)
  from this conjI [OF up quiet]
  have "fst (download_file example_env (filename report_pdf)
            (snd (upload_file example_env \<lparr>files = [(''file'', report_pdf)]\<rparr> empty_world))) =
        (Attachment (filename report_pdf) (stream report_pdf), 200)"
    by (rule mp)
  then have down: "fst (download_file example_env ''report.pdf''
         (snd (upload_file example_env \<lparr>files = [(''file'', report_pdf)]\<rparr> empty_world))) =
     (Attachment ''report.pdf'' [37, 80, 68, 70], 200)"
    by (simp add: report_pdf_def)
  then have "snd (fst (download_file example_env ''report.pdf''
         (snd (upload_file example_env \<lparr>files = [(''file'', report_pdf)]\<rparr> empty_world)))) = 200"
    by simp
  with up down show ?thesis
    by (intro conjI)
qed

text \<open>
  C2. Whenever the upload handler answers with status 200, the bucket is configured, the
  form has a part \<open>file\<close>, and the body is the success page of the source, which
  carries, as the text of its element \<open>url-text\<close> and as the target of its link, the
  URL \<open>https://{bucket}.s3.{region}.amazonaws.com/{filename}\<close>, the region being
  the environment's or \<open>us-east-1\<close>; the URL depends on nothing else.
\<close>

theorem upload_success_url:
  assumes \<open>snd (fst (upload_file env request w)) = 200\<close>
  shows \<open>\<exists>b f url pre mid post.
           env ''S3_BUCKET'' = Some b \<and> map_of (files request) ''file'' = Some f \<and>
           url = ''https://'' @ b @ ''.s3.'' @
                 (case env ''AWS_DEFAULT_REGION'' of None \<Rightarrow> ''us-east-1'' | Some r \<Rightarrow> r) @
                 ''.amazonaws.com/'' @ filename f \<and>
           fst (fst (upload_file env request w)) = Html (success_html url) \<and>
           fst (fst (upload_file env request w)) =
             Html (pre @ ''<div class="url-text" id="url-text">'' @ url @ ''</div>'' @ mid @
                   ''<a href="'' @ url @ ''" target="_blank" class="btn btn-primary">'' @ post)\<close>
proof -
  from assms obtain f where f: "map_of (files request) ''file'' = Some f"
    and named: "filename f \<noteq> ''''"
    and quiet: "no_fault 1 (faults w)"
    and set: "bucket env \<noteq> None"
    by (auto simp: upload_file_status split: option.splits if_splits)
  from set obtain b where b: "bucket env = Some b" by auto
  define url where "url = ''https://'' @ b @ ''.s3.'' @
      (case env ''AWS_DEFAULT_REGION'' of None \<Rightarrow> ''us-east-1'' | Some r \<Rightarrow> r) @
      ''.amazonaws.com/'' @ filename f"
  have "object_url env (filename f) = url"
    using b by (simp add: url_def object_url_def format_opt_def region_def getenv_default_def)
  then have page: "fst (fst (upload_file env request w)) = Html (success_html url)"
    using f named quiet b by (simp add: upload_file_stored)
  from success_html_embeds [of url] obtain pre mid post where
    emb: \<open>success_html url =
       pre @ ''<div class="url-text" id="url-text">'' @ url @ ''</div>'' @ mid @
       ''<a href="'' @ url @ ''" target="_blank" class="btn btn-primary">'' @ post\<close>
    by (elim exE)
  have carried: \<open>fst (fst (upload_file env request w)) =
       Html (pre @ ''<div class="url-text" id="url-text">'' @ url @ ''</div>'' @ mid @
             ''<a href="'' @ url @ ''" target="_blank" class="btn btn-primary">'' @ post)\<close>
    unfolding page emb by (rule refl)
  have set_b: "env ''S3_BUCKET'' = Some b"
    using b by (simp add: bucket_def getenv_def)
  from set_b f url_def page carried show ?thesis
    by - (intro exI conjI, assumption+)
qed

theorem upload_success_url_witness:
  \<open>snd (fst (upload_file example_env \<lparr>files = [(''file'', report_pdf)]\<rparr> empty_world)) = 200 \<and>
   (\<exists>pre mid post.
      fst (fst (upload_file example_env \<lparr>files = [(''file'', report_pdf)]\<rparr> empty_world)) =
        Html (pre @ ''<div class="url-text" id="url-text">'' @
              ''https://geoiq-files.s3.us-east-1.amazonaws.com/report.pdf'' @ ''</div>'' @ mid @
              ''<a href="'' @ ''https://geoiq-files.s3.us-east-1.amazonaws.com/report.pdf'' @
              ''" target="_blank" class="btn btn-primary">'' @ post))\<close>
proof -
  have ok: "snd (fst (upload_file example_env \<lparr>files = [(''file'', report_pdf)]\<rparr> empty_world)) = 200"
    by (simp add: upload_file_status report_pdf_def example_env_def empty_world_def bucket_def
        getenv_def)
  from upload_success_url [OF ok] obtain b f url pre mid post where
    b: "example_env ''S3_BUCKET'' = Some b"
    and f: "map_of (files \<lparr>files = [(''file'', report_pdf)]\<rparr>) ''file'' = Some f"
    and url: "url = ''https://'' @ b @ ''.s3.'' @
        (case example_env ''AWS_DEFAULT_REGION'' of None \<Rightarrow> ''us-east-1'' | Some r \<Rightarrow> r) @
        ''.amazonaws.com/'' @ filename f"
    and page: \<open>fst (fst (upload_file example_env \<lparr>files = [(''file'', report_pdf)]\<rparr> empty_world)) =
        Html (pre @ ''<div class="url-text" id="url-text">'' @ url @ ''</div>'' @ mid @
              ''<a href="'' @ url @ ''" target="_blank" class="btn btn-primary">'' @ post)\<close>
    by blast
  from b have b': "b = ''geoiq-files''"
    by (simp add: example_env_def)
  from f have f': "f = report_pdf"
    by simp
  have "url = ''https://geoiq-files.s3.us-east-1.amazonaws.com/report.pdf''"
    unfolding url b' f' by (simp add: example_env_def report_pdf_def)
  with page have \<open>fst (fst (upload_file example_env \<lparr>files = [(''file'', report_pdf)]\<rparr> empty_world)) =
        Html (pre @ ''<div class="url-text" id="url-text">'' @
              ''https://geoiq-files.s3.us-east-1.amazonaws.com/report.pdf'' @ ''</div>'' @ mid @
              ''<a href="'' @ ''https://geoiq-files.s3.us-east-1.amazonaws.com/report.pdf'' @
              ''" target="_blank" class="btn btn-primary">'' @ post)\<close>
    by (simp only:)
  with ok show ?thesis
    by - (intro exI conjI, assumption+)
qed

text \<open>
  C3. A request whose form has no part named \<open>file\<close> is answered with status 400 and
  the JSON object \<open>{"error": "No file part in the request"}\<close>; the world is left as
  it was, so no call reached the store.
\<close>

theorem upload_no_file_part:
  assumes "map_of (files request) ''file'' = None"
  shows "fst (upload_file env request w) =
           (Json (JObj [(''error'', JStr ''No file part in the request'')]), 400) \<and>
         calls (snd (upload_file env request w)) = calls w \<and>
         objects (snd (upload_file env request w)) = objects w"
  using assms by (simp add: upload_file_missing jsonify_def)

theorem upload_no_file_part_witness:
  "map_of (files \<lparr>files = [(''photo'', report_pdf)]\<rparr>) ''file'' = None \<and>
   fst (upload_file example_env \<lparr>files = [(''photo'', report_pdf)]\<rparr> empty_world) =
     (Json (JObj [(''error'', JStr ''No file part in the request'')]), 400) \<and>
   calls (snd (upload_file example_env \<lparr>files = [(''photo'', report_pdf)]\<rparr> empty_world)) =
     calls empty_world \<and>
   objects (snd (upload_file example_env \<lparr>files = [(''photo'', report_pdf)]\<rparr> empty_world)) =
     objects empty_world"
proof -
  have none: "map_of (files \<lparr>files = [(''photo'', report_pdf)]\<rparr>) ''file'' = None"
    by simp
  from none upload_no_file_part [OF none, of example_env empty_world] show ?thesis
    by blast
qed

text \<open>
  C4. A request whose part \<open>file\<close> carries the empty filename is answered with status
  400 and the JSON object \<open>{"error": "No selected file"}\<close>.
\<close>

theorem upload_empty_filename:
  assumes "map_of (files request) ''file'' = Some f" and "filename f = ''''"
  shows "fst (upload_file env request w) =
           (Json (JObj [(''error'', JStr ''No selected file'')]), 400)"
  using assms by (simp add: upload_file_unnamed jsonify_def)

theorem upload_empty_filename_witness:
  "map_of (files \<lparr>files = [(''file'', unnamed_part)]\<rparr>) ''file'' = Some unnamed_part \<and>
   filename unnamed_part = '''' \<and>
   fst (upload_file example_env \<lparr>files = [(''file'', unnamed_part)]\<rparr> empty_world) =
     (Json (JObj [(''error'', JStr ''No selected file'')]), 400)"
proof -
  have part: "map_of (files \<lparr>files = [(''file'', unnamed_part)]\<rparr>) ''file'' = Some unnamed_part"
    by simp
  have unnamed: "filename unnamed_part = ''''"
    by (simp add: unnamed_part_def)
  from part unnamed upload_empty_filename [OF part unnamed, of example_env empty_world]
  show ?thesis by blast
qed

text \<open>
  C5. Whatever exception the fetch of the download handler raises, the handler answers
  with status 500 and the JSON object \<open>{"error": str(e)}\<close>. This covers a call the
  backend makes fail, and the missing key: the store's own not-found error gets the
  same answer as any other.
\<close>

theorem download_error_is_500:
  "(download_fileobj (bucket env) name w = (Inl e, w') \<longrightarrow>
      download_file env name w = ((Json (JObj [(''error'', JStr (str e))]), 500), w')) \<and>
   (faults w = Some e # fs \<longrightarrow>
      fst (download_file env name w) = (Json (JObj [(''error'', JStr (str e))]), 500)) \<and>
   (bucket env = Some b \<and> objects w (b, name) = None \<and> no_fault 1 (faults w) \<longrightarrow>
      fst (download_fileobj (bucket env) name w) = Inl NotFound \<and>
      fst (download_file env name w) = (Json (JObj [(''error'', JStr (str NotFound))]), 500))"
proof (intro conjI impI)
  assume "download_fileobj (bucket env) name w = (Inl e, w')"
  then show "download_file env name w = ((Json (JObj [(''error'', JStr (str e))]), 500), w')"
    by (simp add: download_file_raises jsonify_def)
next
  assume "faults w = Some e # fs"
  then show "fst (download_file env name w) = (Json (JObj [(''error'', JStr (str e))]), 500)"
    by (simp add: download_file_fault jsonify_def)
next
  assume missing: "bucket env = Some b \<and> objects w (b, name) = None \<and> no_fault 1 (faults w)"
  then have raised: "download_fileobj (bucket env) name w =
      (Inl NotFound, w\<lparr>faults := drop 1 (faults w), calls := calls w @ [S3Download (Some b) name]\<rparr>)"
    using download_fileobj_missing [of env b w name] by blast
  then show "fst (download_fileobj (bucket env) name w) = Inl NotFound"
    by simp
  from raised show "fst (download_file env name w) =
      (Json (JObj [(''error'', JStr (str NotFound))]), 500)"
    by (simp add: download_file_raises jsonify_def)
qed

theorem download_error_is_500_witness:
  "bucket example_env = Some ''geoiq-files'' \<and>
   objects empty_world (''geoiq-files'', ''does-not-exist'') = None \<and>
   no_fault 1 (faults empty_world) \<and>
   fst (download_file example_env ''does-not-exist'' empty_world) =
     (Json (JObj [(''error'',
        JStr ''An error occurred (404) when calling the HeadObject operation: Not Found'')]), 500) \<and>
   faults (empty_world\<lparr>faults := [Some (BackendError ''Connection reset'')]\<rparr>) =
     [Some (BackendError ''Connection reset'')] \<and>
   fst (download_file example_env ''report.pdf''
         (empty_world\<lparr>faults := [Some (BackendError ''Connection reset'')]\<rparr>)) =
     (Json (JObj [(''error'', JStr ''Connection reset'')]), 500)"
proof -
  have pre: "bucket example_env = Some ''geoiq-files'' \<and>
      objects empty_world (''geoiq-files'', ''does-not-exist'') = None \<and>
      no_fault 1 (faults empty_world)"
    by (simp add: example_env_def empty_world_def bucket_def getenv_def)
  have sched: "faults (empty_world\<lparr>faults := [Some (BackendError ''Connection reset'')]\<rparr>) =
      [Some (BackendError ''Connection reset'')]"
    by simp
  from pre
    download_error_is_500 [of example_env "''does-not-exist''" empty_world NotFound empty_world
      "[]" "''geoiq-files''"]
  have a: "fst (download_file example_env ''does-not-exist'' empty_world) =
     (Json (JObj [(''error'',
        JStr ''An error occurred (404) when calling the HeadObject operation: Not Found'')]), 500)"
    by simp
  from sched
    download_error_is_500 [of example_env "''report.pdf''"
      "empty_world\<lparr>faults := [Some (BackendError ''Connection reset'')]\<rparr>"
      "BackendError ''Connection reset''" empty_world "[]" "''geoiq-files''"]
  have b: "fst (download_file example_env ''report.pdf''
         (empty_world\<lparr>faults := [Some (BackendError ''Connection reset'')]\<rparr>)) =
     (Json (JObj [(''error'', JStr ''Connection reset'')]), 500)"
    by simp
  from pre sched a b show ?thesis by blast
qed

text \<open>
  C9. An upload that passes the two checks makes exactly one storage call: the put of
  the part's bytes under the part's filename, unchanged, as the key. When the bucket is
  configured and the call is not made to raise, the store afterwards maps that key to
  the new bytes and is otherwise as before, whether or not the key held an object, and
  the answer is the success page either way.
\<close>

theorem upload_key_is_filename:
  assumes "map_of (files request) ''file'' = Some f" and "filename f \<noteq> ''''"
  shows "calls (snd (upload_file env request w)) =
           calls w @ [S3Upload (bucket env) (filename f) (stream f)] \<and>
         (bucket env = Some b \<and> no_fault 1 (faults w) \<longrightarrow>
            snd (fst (upload_file env request w)) = 200 \<and>
            objects (snd (upload_file env request w)) =
              (objects w)((b, filename f) \<mapsto> stream f) \<and>
            objects (snd (upload_file env request w)) (b, filename f) = Some (stream f))"
proof (cases "no_fault 1 (faults w)")
  case True
  show ?thesis
  proof (cases "bucket env")
    case None
    with assms True show ?thesis by (simp add: upload_file_no_bucket)
  next
    case (Some b')
    with assms True show ?thesis by (simp add: upload_file_stored)
  qed
next
  case False
  then obtain e rest where "faults w = Some e # rest"
    using not_no_fault_1 by blast
  with assms False show ?thesis by (simp add: upload_file_fault)
qed

theorem upload_key_is_filename_witness:
  "objects (snd (upload_file example_env \<lparr>files = [(''file'', report_pdf)]\<rparr> empty_world))
     (''geoiq-files'', ''report.pdf'') = Some [37, 80, 68, 70] \<and>
   calls (snd (upload_file example_env \<lparr>files = [(''file'', report_pdf_v2)]\<rparr>
     (snd (upload_file example_env \<lparr>files = [(''file'', report_pdf)]\<rparr> empty_world)))) =
     [S3Upload (Some ''geoiq-files'') ''report.pdf'' [37, 80, 68, 70],
      S3Upload (Some ''geoiq-files'') ''report.pdf'' [1, 2]] \<and>
   snd (fst (upload_file example_env \<lparr>files = [(''file'', report_pdf_v2)]\<rparr>
     (snd (upload_file example_env \<lparr>files = [(''file'', report_pdf)]\<rparr> empty_world)))) = 200 \<and>
   objects (snd (upload_file example_env \<lparr>files = [(''file'', report_pdf_v2)]\<rparr>
     (snd (upload_file example_env \<lparr>files = [(''file'', report_pdf)]\<rparr> empty_world))))
     (''geoiq-files'', ''report.pdf'') = Some [1, 2]"
proof -
  define w1 where "w1 = snd (upload_file example_env \<lparr>files = [(''file'', report_pdf)]\<rparr> empty_world)"
  have env: "bucket example_env = Some ''geoiq-files''"
    by (simp add: example_env_def bucket_def getenv_def)
  have first: "calls w1 = [S3Upload (Some ''geoiq-files'') ''report.pdf'' [37, 80, 68, 70]] \<and>
      objects w1 (''geoiq-files'', ''report.pdf'') = Some [37, 80, 68, 70] \<and> faults w1 = []"
    unfolding w1_def
    using env upload_file_stored [of "\<lparr>files = [(''file'', report_pdf)]\<rparr>" report_pdf
        empty_world example_env "''geoiq-files''"]
    by (simp add: report_pdf_def empty_world_def)
  from first env
    upload_key_is_filename [of "\<lparr>files = [(''file'', report_pdf_v2)]\<rparr>" report_pdf_v2
      example_env w1 "''geoiq-files''"]
  show ?thesis
    unfolding w1_def [symmetric] by (simp add: report_pdf_v2_def)
qed

text \<open>
  C10. The check for the part \<open>file\<close> comes first: a form without it gets the first
  message, and the filename is looked at only once the part is there. The handler
  answers 400 exactly when one of the two checks fails, and then it returns the world
  as it received it: no call was made and no object changed.
\<close>

theorem upload_validation_first:
  "(map_of (files request) ''file'' = None \<longrightarrow>
      fst (upload_file env request w) =
        (Json (JObj [(''error'', JStr ''No file part in the request'')]), 400)) \<and>
   (\<forall>f. map_of (files request) ''file'' = Some f \<and> filename f = '''' \<longrightarrow>
      fst (upload_file env request w) =
        (Json (JObj [(''error'', JStr ''No selected file'')]), 400)) \<and>
   (snd (fst (upload_file env request w)) = 400 \<longleftrightarrow>
      map_of (files request) ''file'' = None \<or>
      (\<exists>f. map_of (files request) ''file'' = Some f \<and> filename f = '''')) \<and>
   (snd (fst (upload_file env request w)) = 400 \<longrightarrow>
      snd (upload_file env request w) = w)"
proof (intro conjI impI allI)
  assume "map_of (files request) ''file'' = None"
  then show "fst (upload_file env request w) =
      (Json (JObj [(''error'', JStr ''No file part in the request'')]), 400)"
    by (simp add: upload_file_missing jsonify_def)
next
  fix f
  assume "map_of (files request) ''file'' = Some f \<and> filename f = ''''"
  then show "fst (upload_file env request w) =
      (Json (JObj [(''error'', JStr ''No selected file'')]), 400)"
    by (simp add: upload_file_unnamed jsonify_def)
next
  show "snd (fst (upload_file env request w)) = 400 \<longleftrightarrow>
      map_of (files request) ''file'' = None \<or>
      (\<exists>f. map_of (files request) ''file'' = Some f \<and> filename f = '''')"
    by (auto simp: upload_file_status split: option.splits if_splits)
next
  assume "snd (fst (upload_file env request w)) = 400"
  then consider "map_of (files request) ''file'' = None"
    | f where "map_of (files request) ''file'' = Some f" "filename f = ''''"
    by (auto simp: upload_file_status split: option.splits if_splits)
  then show "snd (upload_file env request w) = w"
    by cases (simp_all add: upload_file_missing upload_file_unnamed)
qed

theorem upload_validation_first_witness:
  "fst (upload_file example_env \<lparr>files = []\<rparr> empty_world) =
     (Json (JObj [(''error'', JStr ''No file part in the request'')]), 400) \<and>
   snd (upload_file example_env \<lparr>files = []\<rparr> empty_world) = empty_world \<and>
   fst (upload_file example_env \<lparr>files = [(''file'', unnamed_part)]\<rparr> empty_world) =
     (Json (JObj [(''error'', JStr ''No selected file'')]), 400) \<and>
   snd (upload_file example_env \<lparr>files = [(''file'', unnamed_part)]\<rparr> empty_world) = empty_world"
proof -
  have unnamed: "filename unnamed_part = ''''"
    by (simp add: unnamed_part_def)
  from upload_validation_first [of "\<lparr>files = []\<rparr>" example_env empty_world]
  have a: "fst (upload_file example_env \<lparr>files = []\<rparr> empty_world) =
     (Json (JObj [(''error'', JStr ''No file part in the request'')]), 400) \<and>
     snd (upload_file example_env \<lparr>files = []\<rparr> empty_world) = empty_world"
    by simp
  from unnamed
    upload_validation_first [of "\<lparr>files = [(''file'', unnamed_part)]\<rparr>" example_env empty_world]
  have b: "fst (upload_file example_env \<lparr>files = [(''file'', unnamed_part)]\<rparr> empty_world) =
     (Json (JObj [(''error'', JStr ''No selected file'')]), 400) \<and>
     snd (upload_file example_env \<lparr>files = [(''file'', unnamed_part)]\<rparr> empty_world) = empty_world"
    by simp
  from a b show ?thesis by blast
qed

section \<open>The claims about errors and the database probe\<close>

lemma upload_file_500:
  "snd (fst (upload_file env request w)) = 500 \<Longrightarrow>
   \<exists>e. fst (upload_file env request w) = (Json (JObj [(''error'', JStr (str e))]), 500)"
proof -
  assume s: "snd (fst (upload_file env request w)) = 500"
  then obtain f where f: "map_of (files request) ''file'' = Some f" "filename f \<noteq> ''''"
    by (auto simp: upload_file_status split: option.splits if_splits)
  show ?thesis
  proof (cases "no_fault 1 (faults w)")
    case True
    with s f have "bucket env = None"
      by (cases "bucket env") (simp_all add: upload_file_status)
    with f True have "fst (upload_file env request w) =
        (Json (JObj [(''error'', JStr (str InvalidBucket))]), 500)"
      by (simp add: upload_file_no_bucket jsonify_def)
    then show ?thesis by blast
  next
    case False
    then obtain e rest where "faults w = Some e # rest"
      using not_no_fault_1 by blast
    with f show ?thesis
      by (auto simp: upload_file_fault jsonify_def)
  qed
qed

lemma download_file_500:
  "snd (fst (download_file env name w)) = 500 \<Longrightarrow>
   \<exists>e. fst (download_file env name w) = (Json (JObj [(''error'', JStr (str e))]), 500)"
  by (cases "download_fileobj (bucket env) name w"; case_tac a)
     (auto simp: download_file_def download_file_body_def io_defs jsonify_def)

lemma db_test_500:
  "snd (fst (db_test env w)) = 500 \<Longrightarrow>
   \<exists>e. fst (db_test env w) = (Json (JObj [(''error'', JStr (str e))]), 500)"
proof -
  assume "snd (fst (db_test env w)) = 500"
  then have "\<not> no_fault 9 (faults w)"
    by (auto simp: db_test_status split: if_splits)
  then obtain k e rest where "k < 9" "faults w = replicate k None @ Some e # rest"
    using not_no_fault by blast
  then show ?thesis
    using db_test_fault [of k w e rest env] by (auto simp: jsonify_def)
qed

lemma try_except_raises:
  "m w = (Inl e, w') \<Longrightarrow> try_except m h w = (h e, w')"
  by (simp add: try_except_def)

text \<open>
  C6. In each of the three handlers that call a backend, an exception of the body is
  caught by the handler and answered with status 500 and \<open>{"error": str(e)}\<close>; so is
  a call the backend makes fail, at the one call of the upload and the download and at
  any of the nine calls of the probe. Every answer with status 500 has that body. The
  upload handler answers 200, 400 or 500, and 400 exactly when one of its two checks
  of the form fails; the download handler and the probe answer 200 or 500; the health
  check and the upload page answer 200.
\<close>

theorem handler_error_taxonomy:
  "(upload_file_body env request w = (Inl e, w') \<longrightarrow>
      upload_file env request w = ((Json (JObj [(''error'', JStr (str e))]), 500), w')) \<and>
   (download_file_body env name w = (Inl e, w') \<longrightarrow>
      download_file env name w = ((Json (JObj [(''error'', JStr (str e))]), 500), w')) \<and>
   (db_test_body env w = (Inl e, w') \<longrightarrow>
      db_test env w = ((Json (JObj [(''error'', JStr (str e))]), 500), w')) \<and>
   (map_of (files request) ''file'' = Some f \<and> filename f \<noteq> '''' \<and> faults w = Some e # fs \<longrightarrow>
      fst (upload_file env request w) = (Json (JObj [(''error'', JStr (str e))]), 500)) \<and>
   (faults w = Some e # fs \<longrightarrow>
      fst (download_file env name w) = (Json (JObj [(''error'', JStr (str e))]), 500)) \<and>
   (k < 9 \<and> faults w = replicate k None @ Some e # fs \<longrightarrow>
      fst (db_test env w) = (Json (JObj [(''error'', JStr (str e))]), 500)) \<and>
   (snd (fst (upload_file env request w)) = 500 \<longrightarrow>
      (\<exists>x. fst (upload_file env request w) = (Json (JObj [(''error'', JStr (str x))]), 500))) \<and>
   (snd (fst (download_file env name w)) = 500 \<longrightarrow>
      (\<exists>x. fst (download_file env name w) = (Json (JObj [(''error'', JStr (str x))]), 500))) \<and>
   (snd (fst (db_test env w)) = 500 \<longrightarrow>
      (\<exists>x. fst (db_test env w) = (Json (JObj [(''error'', JStr (str x))]), 500))) \<and>
   snd (fst (upload_file env request w)) \<in> {200, 400, 500} \<and>
   (snd (fst (upload_file env request w)) = 400 \<longleftrightarrow>
      map_of (files request) ''file'' = None \<or>
      (\<exists>p. map_of (files request) ''file'' = Some p \<and> filename p = '''')) \<and>
   snd (fst (download_file env name w)) \<in> {200, 500} \<and>
   snd (fst (db_test env w)) \<in> {200, 500} \<and>
   snd (fst (health_check w)) = 200 \<and>
   snd (fst (upload_page w)) = 200"
proof -
  have body_up: "upload_file_body env request w = (Inl e, w') \<longrightarrow>
      upload_file env request w = ((Json (JObj [(''error'', JStr (str e))]), 500), w')"
    by (simp add: upload_file_def try_except_raises jsonify_def)
  have body_down: "download_file_body env name w = (Inl e, w') \<longrightarrow>
      download_file env name w = ((Json (JObj [(''error'', JStr (str e))]), 500), w')"
    by (simp add: download_file_def try_except_raises jsonify_def)
  have body_db: "db_test_body env w = (Inl e, w') \<longrightarrow>
      db_test env w = ((Json (JObj [(''error'', JStr (str e))]), 500), w')"
    by (simp add: db_test_def try_except_raises jsonify_def)
  have fault_up: "map_of (files request) ''file'' = Some f \<and> filename f \<noteq> '''' \<and>
      faults w = Some e # fs \<longrightarrow>
      fst (upload_file env request w) = (Json (JObj [(''error'', JStr (str e))]), 500)"
    by (simp add: upload_file_fault jsonify_def)
  have fault_down: "faults w = Some e # fs \<longrightarrow>
      fst (download_file env name w) = (Json (JObj [(''error'', JStr (str e))]), 500)"
    by (simp add: download_file_fault jsonify_def)
  have fault_db: "k < 9 \<and> faults w = replicate k None @ Some e # fs \<longrightarrow>
      fst (db_test env w) = (Json (JObj [(''error'', JStr (str e))]), 500)"
    using db_test_fault [of k w e fs env] by (simp add: jsonify_def)
  have st_up: "snd (fst (upload_file env request w)) \<in> {200, 400, 500}"
    by (simp add: upload_file_status split: option.splits)
  have bad_up: "snd (fst (upload_file env request w)) = 400 \<longleftrightarrow>
      map_of (files request) ''file'' = None \<or>
      (\<exists>p. map_of (files request) ''file'' = Some p \<and> filename p = '''')"
    by (auto simp: upload_file_status split: option.splits if_splits)
  have st_db: "snd (fst (db_test env w)) \<in> {200, 500}"
    by (simp add: db_test_status)
  have st_pages: "snd (fst (health_check w)) = 200 \<and> snd (fst (upload_page w)) = 200"
    by (simp add: health_check_def upload_page_def)
  from body_up body_down body_db fault_up fault_down fault_db upload_file_500 [of env request w]
    download_file_500 [of env name w] db_test_500 [of env w] st_up bad_up
    download_file_status [of env name w] st_db st_pages
  show ?thesis by blast
qed

theorem handler_error_taxonomy_witness:
  "fst (upload_file example_env \<lparr>files = [(''file'', report_pdf)]\<rparr> timeout_world) =
     (Json (JObj [(''error'', JStr ''Read timeout on endpoint URL'')]), 500) \<and>
   fst (download_file example_env ''report.pdf'' timeout_world) =
     (Json (JObj [(''error'', JStr ''Read timeout on endpoint URL'')]), 500) \<and>
   fst (db_test example_env denied_world) =
     (Json (JObj [(''error'', JStr ''permission denied for table test'')]), 500) \<and>
   snd (fst (upload_file example_env \<lparr>files = []\<rparr> timeout_world)) = 400"
proof -
  have sched: "faults timeout_world = Some (BackendError ''Read timeout on endpoint URL'') # []"
    by (simp add: timeout_world_def)
  have part: "map_of (files \<lparr>files = [(''file'', report_pdf)]\<rparr>) ''file'' = Some report_pdf \<and>
      filename report_pdf \<noteq> ''''"
    by (simp add: report_pdf_def)
  have denied: "(3::nat) < 9 \<and> faults denied_world =
      replicate 3 None @ Some (BackendError ''permission denied for table test'') # []"
    by (simp add: denied_world_def eval_nat_numeral)
  from sched part
    handler_error_taxonomy [of example_env "\<lparr>files = [(''file'', report_pdf)]\<rparr>" timeout_world
      "BackendError ''Read timeout on endpoint URL''" timeout_world "''report.pdf''"
      report_pdf "[]" 0]
  have a: "fst (upload_file example_env \<lparr>files = [(''file'', report_pdf)]\<rparr> timeout_world) =
     (Json (JObj [(''error'', JStr ''Read timeout on endpoint URL'')]), 500) \<and>
     fst (download_file example_env ''report.pdf'' timeout_world) =
     (Json (JObj [(''error'', JStr ''Read timeout on endpoint URL'')]), 500)"
    by simp
  from denied
    handler_error_taxonomy [of example_env "\<lparr>files = []\<rparr>" denied_world
      "BackendError ''permission denied for table test''" denied_world "''report.pdf''"
      report_pdf "[]" 3]
  have b: "fst (db_test example_env denied_world) =
     (Json (JObj [(''error'', JStr ''permission denied for table test'')]), 500)"
    by simp
  from handler_error_taxonomy [of example_env "\<lparr>files = []\<rparr>" timeout_world
      "BackendError ''x''" timeout_world "''report.pdf''" report_pdf "[]" 0]
  have c: "snd (fst (upload_file example_env \<lparr>files = []\<rparr> timeout_world)) = 400"
    by simp
  from a b c show ?thesis by blast
qed

text \<open>
  C7, as amended. The claim as stated fails for a database that accepts the connection
  and then makes a later call raise: nothing is inserted and the answer is 500. What
  holds: when the connection succeeds and none of the handler's later database calls
  raises, one run makes the nine calls in order (the insert, then the commit, then the
  select), leaves the committed table with exactly one more row, \<open>GeoIQ\<close> under the
  next id, and answers 200 with all rows of the table; a second such run answers with
  the rows of the first and one more.
\<close>

theorem db_test_inserts_one_row:
  assumes "no_fault 9 (faults w)"
  shows "fst (db_test env w) =
           (Json (JObj [(''results'', rows_json (table_rows (snd (db_test env w))))]), 200) \<and>
         table_rows (snd (db_test env w)) = table_rows w @ [(last_id w + 1, ''GeoIQ'')] \<and>
         test_table (snd (db_test env w)) = Some (table_rows (snd (db_test env w))) \<and>
         calls (snd (db_test env w)) = calls w @ db_test_calls env (connects w) \<and>
         (no_fault 9 (faults (snd (db_test env w))) \<longrightarrow>
            fst (db_test env (snd (db_test env w))) =
              (Json (JObj [(''results'',
                 rows_json (table_rows w @
                   [(last_id w + 1, ''GeoIQ''), (last_id w + 2, ''GeoIQ'')]))]), 200) \<and>
            length (table_rows (snd (db_test env (snd (db_test env w))))) =
              Suc (length (table_rows (snd (db_test env w)))))"
proof -
  define w1 where "w1 = snd (db_test env w)"
  have first: "db_test env w =
    ((jsonify [(''results'', rows_json (table_rows w @ [(last_id w + 1, ''GeoIQ'')]))], 200),
     w\<lparr>faults := drop 9 (faults w),
       calls := calls w @ db_test_calls env (connects w),
       sessions := (sessions w)(connects w := None),
       test_table := Some (table_rows w @ [(last_id w + 1, ''GeoIQ'')]),
       test_seq := last_id w + 1,
       connects := Suc (connects w)\<rparr>)"
    using assms by (rule db_test_ok)
  have rows1: "table_rows w1 = table_rows w @ [(last_id w + 1, ''GeoIQ'')]"
    and id1: "last_id w1 = last_id w + 1"
    and tab1: "test_table w1 = Some (table_rows w @ [(last_id w + 1, ''GeoIQ'')])"
    and calls1: "calls w1 = calls w @ db_test_calls env (connects w)"
    unfolding w1_def first by (simp_all add: table_rows_def last_id_def)
  have resp1: "fst (db_test env w) =
      (Json (JObj [(''results'', rows_json (table_rows w1))]), 200)"
    unfolding rows1 first by (simp add: jsonify_def)
  have second: "no_fault 9 (faults w1) \<longrightarrow>
      fst (db_test env w1) =
        (Json (JObj [(''results'',
           rows_json (table_rows w @
             [(last_id w + 1, ''GeoIQ''), (last_id w + 2, ''GeoIQ'')]))]), 200) \<and>
      length (table_rows (snd (db_test env w1))) = Suc (length (table_rows w1))"
  proof
    assume "no_fault 9 (faults w1)"
    then have r2: "db_test env w1 =
      ((jsonify [(''results'', rows_json (table_rows w1 @ [(last_id w1 + 1, ''GeoIQ'')]))], 200),
       w1\<lparr>faults := drop 9 (faults w1),
         calls := calls w1 @ db_test_calls env (connects w1),
         sessions := (sessions w1)(connects w1 := None),
         test_table := Some (table_rows w1 @ [(last_id w1 + 1, ''GeoIQ'')]),
         test_seq := last_id w1 + 1,
         connects := Suc (connects w1)\<rparr>)"
      by (rule db_test_ok)
    have id2: "last_id w1 + 1 = last_id w + 2"
      using id1 by simp
    have resp2: "fst (db_test env w1) =
        (Json (JObj [(''results'',
           rows_json (table_rows w @
             [(last_id w + 1, ''GeoIQ''), (last_id w + 2, ''GeoIQ'')]))]), 200)"
      unfolding r2 by (simp add: rows1 id2 jsonify_def)
    have "table_rows (snd (db_test env w1)) = table_rows w1 @ [(last_id w1 + 1, ''GeoIQ'')]"
      unfolding r2 by (simp add: table_rows_def)
    then have "length (table_rows (snd (db_test env w1))) = Suc (length (table_rows w1))"
      by simp
    with resp2 show "fst (db_test env w1) =
        (Json (JObj [(''results'',
           rows_json (table_rows w @
             [(last_id w + 1, ''GeoIQ''), (last_id w + 2, ''GeoIQ'')]))]), 200) \<and>
      length (table_rows (snd (db_test env w1))) = Suc (length (table_rows w1))"
      by blast
  qed
  from resp1 rows1 tab1 calls1 second show ?thesis
    unfolding w1_def by simp
qed

theorem db_test_inserts_one_row_witness:
  "fst (db_test example_env empty_world) =
     (Json (JObj [(''results'', JArr [JArr [JInt 1, JStr ''GeoIQ'']])]), 200) \<and>
   test_table (snd (db_test example_env empty_world)) = Some [(1, ''GeoIQ'')] \<and>
   fst (db_test example_env (snd (db_test example_env empty_world))) =
     (Json (JObj [(''results'',
        JArr [JArr [JInt 1, JStr ''GeoIQ''], JArr [JInt 2, JStr ''GeoIQ'']])]), 200)"
proof -
  have quiet: "no_fault 9 (faults empty_world)"
    by (simp add: empty_world_def)
  have start: "table_rows empty_world = [] \<and> last_id empty_world = 0"
    by (simp add: empty_world_def table_rows_def last_id_def)
  have "faults (snd (db_test example_env empty_world)) = []"
    using quiet by (simp add: db_test_ok empty_world_def)
  then have quiet2: "no_fault 9 (faults (snd (db_test example_env empty_world)))"
    by simp
  from db_test_inserts_one_row [OF quiet, of example_env] quiet2 start
  show ?thesis by (simp add: rows_json_def)
qed

text \<open>
  C7 as stated, at a database that holds one row, accepts the connection and refuses
  the insert: the connection is opened, the answer is 500 and the table still holds
  its one row.
\<close>

theorem db_test_inserts_one_row_counterexample:
  "fst (connect (db_params example_env) denied_world) = Inr 0 \<and>
   fst (db_test example_env denied_world) =
     (Json (JObj [(''error'', JStr ''permission denied for table test'')]), 500) \<and>
   test_table (snd (db_test example_env denied_world)) = Some [(1, ''GeoIQ'')]"
  by (simp add: db_test_def db_test_body_def pg_defs io_defs backend_call_def
      parse_sql_simps jsonify_def denied_world_def empty_world_def)

text \<open>
  C8. A run of the probe that answers 200 has made all nine calls, the last two being
  the close of the cursor and the close of the connection, and the connection it
  opened is no longer open. When the connection is opened and one of the calls between
  the open and the close of the connection is the first to raise (the cursor, a
  statement, the commit, the fetch or the close of the cursor), the handler answers 500
  with the exception's text, has made no call after the one that raised, so never the
  close of the connection, and the connection it opened is still open.
\<close>

theorem db_test_closes_only_on_success:
  "(snd (fst (db_test env w)) = 200 \<longrightarrow>
      calls (snd (db_test env w)) = calls w @ db_test_calls env (connects w) \<and>
      drop 7 (db_test_calls env (connects w)) =
        [PgCursorClose (connects w), PgClose (connects w)] \<and>
      sessions (snd (db_test env w)) (connects w) = None) \<and>
   (1 \<le> k \<and> k \<le> 7 \<and> faults w = replicate k None @ Some e # fs \<longrightarrow>
      fst (db_test env w) = (Json (JObj [(''error'', JStr (str e))]), 500) \<and>
      calls (snd (db_test env w)) = calls w @ take (Suc k) (db_test_calls env (connects w)) \<and>
      PgClose (connects w) \<notin> set (take (Suc k) (db_test_calls env (connects w))) \<and>
      sessions (snd (db_test env w)) (connects w) \<noteq> None)"
proof (intro conjI impI)
  assume "snd (fst (db_test env w)) = 200"
  then have quiet: "no_fault 9 (faults w)"
    by (simp add: db_test_status split: if_splits)
  show "calls (snd (db_test env w)) = calls w @ db_test_calls env (connects w)"
    using quiet by (simp add: db_test_ok)
  show "sessions (snd (db_test env w)) (connects w) = None"
    using quiet by (simp add: db_test_ok)
  show "drop 7 (db_test_calls env (connects w)) =
      [PgCursorClose (connects w), PgClose (connects w)]"
    by (simp add: db_test_calls_def)
next
  assume k: "1 \<le> k \<and> k \<le> 7 \<and> faults w = replicate k None @ Some e # fs"
  then have run: "fst (db_test env w) = (jsonify [(''error'', JStr (str e))], 500) \<and>
      calls (snd (db_test env w)) = calls w @ take (Suc k) (db_test_calls env (connects w)) \<and>
      sessions (snd (db_test env w)) (connects w) \<noteq> None"
    using db_test_fault [of k w e fs env] by simp
  from run show "fst (db_test env w) = (Json (JObj [(''error'', JStr (str e))]), 500)"
    by (simp add: jsonify_def)
  from run show "calls (snd (db_test env w)) =
      calls w @ take (Suc k) (db_test_calls env (connects w))"
    by simp
  from run show "sessions (snd (db_test env w)) (connects w) \<noteq> None"
    by simp
  from k consider "k = 1" | "k = 2" | "k = 3" | "k = 4" | "k = 5" | "k = 6" | "k = 7"
    by linarith
  then show "PgClose (connects w) \<notin> set (take (Suc k) (db_test_calls env (connects w)))"
    by cases (simp_all add: db_test_calls_def eval_nat_numeral)
qed

theorem db_test_closes_only_on_success_witness:
  "snd (fst (db_test example_env empty_world)) = 200 \<and>
   calls (snd (db_test example_env empty_world)) = db_test_calls example_env 0 \<and>
   sessions (snd (db_test example_env empty_world)) 0 = None \<and>
   fst (db_test example_env denied_world) =
     (Json (JObj [(''error'', JStr ''permission denied for table test'')]), 500) \<and>
   calls (snd (db_test example_env denied_world)) = take 4 (db_test_calls example_env 0) \<and>
   sessions (snd (db_test example_env denied_world)) 0 \<noteq> None"
proof -
  have ok: "snd (fst (db_test example_env empty_world)) = 200"
    by (simp add: db_test_status empty_world_def)
  have start: "connects empty_world = 0 \<and> calls empty_world = []"
    by (simp add: empty_world_def)
  have denied: "(1::nat) \<le> 3 \<and> (3::nat) \<le> 7 \<and> faults denied_world =
      replicate 3 None @ Some (BackendError ''permission denied for table test'') # [] \<and>
      connects denied_world = 0 \<and> calls denied_world = []"
    by (simp add: denied_world_def empty_world_def eval_nat_numeral)
  from ok start
    db_test_closes_only_on_success [of example_env empty_world 0 "BackendError ''x''" "[]"]
  have a: "calls (snd (db_test example_env empty_world)) = db_test_calls example_env 0 \<and>
      sessions (snd (db_test example_env empty_world)) 0 = None"
    by simp
  from denied
    db_test_closes_only_on_success [of example_env denied_world 3
      "BackendError ''permission denied for table test''" "[]"]
  have b: "fst (db_test example_env denied_world) =
     (Json (JObj [(''error'', JStr ''permission denied for table test'')]), 500) \<and>
     calls (snd (db_test example_env denied_world)) = take 4 (db_test_calls example_env 0) \<and>
     sessions (snd (db_test example_env denied_world)) 0 \<noteq> None"
    by (simp add: eval_nat_numeral)
  from ok a b show ?thesis by blast
qed


end
